theory Spec2Isabelle
  imports Main "HOL-Library.AList"
begin

section \<open>Python values and exceptions\<close>

text \<open>
  The exceptions the modelled code can raise.  Numbers are Python integers (\<open>int\<close>);
  Python's floor division \<open>//\<close> on integers is \<open>div\<close> on \<open>int\<close>, except that a zero
  divisor raises \<open>ZeroDivisionError\<close>, which every model below writes out.
\<close>

datatype pyerr =
  AssertionError | ZeroDivisionError | KeyError | IndexError
  | ValueError | TypeError | AttributeError

section \<open>Atlas slicing: \<open>calculate_columns\<close> (json\_map.py, lines 42-52)\<close>

definition calculate_columns :: "int \<Rightarrow> int \<Rightarrow> int \<Rightarrow> int \<Rightarrow> pyerr + int" where
  "calculate_columns image_width tile_width margin spacing =
     (let image_width = image_width - margin * 2 in
      if image_width < tile_width then Inr 0
      else if image_width = tile_width then Inr 1
      else if tile_width + spacing = 0 then Inl ZeroDivisionError
      else
        let columns = ((image_width - tile_width) div (tile_width + spacing)) + 1 in
        if (columns * tile_width) + (spacing * (columns - 1)) = image_width
        then Inr columns
        else Inl AssertionError)"

text \<open>The count the spec's formula gives for usable length \<open>U\<close>.\<close>

definition slicing_count :: "int \<Rightarrow> int \<Rightarrow> int \<Rightarrow> int" where
  "slicing_count U t s = (if U = t then 1 else ((U - t) div (t + s)) + 1)"

definition slicing_identity :: "int \<Rightarrow> int \<Rightarrow> int \<Rightarrow> int \<Rightarrow> bool" where
  "slicing_identity U t s c \<longleftrightarrow> c * t + s * (c - 1) = U"

section \<open>The input map description (the parsed JSON tree)\<close>

record tileset_data =
  ts_name :: string
  ts_image :: string
  ts_imagewidth :: int
  ts_imageheight :: int
  ts_tilewidth :: int
  ts_tileheight :: int
  ts_margin :: int
  ts_spacing :: int
  ts_firstgid :: int
  ts_tileoffset :: "(int \<times> int) option"

record obj =
  obj_name :: "string option"
  obj_type :: "string option"
  obj_x :: int
  obj_y :: int
  obj_visible :: bool
  obj_gid :: "int option"

record layer_data =
  ld_name :: string
  ld_type :: string
  ld_visible :: bool
  ld_data :: "int list"
  ld_objects :: "obj list"

record map_data =
  md_width :: int
  md_height :: int
  md_tilewidth :: int
  md_tileheight :: int
  md_tilesets :: "tileset_data list"
  md_layers :: "layer_data list"

section \<open>Textures, sprites and the draw batch\<close>

text \<open>
  The texture grid, the sprite and the batch belong to pyglet.  A texture is named by the
  atlas image and the grid index \<open>(row, column)\<close> it is read at; a sprite by the arguments
  of its constructor; the batch by the trace of sprite creations and deletions.
\<close>

datatype texture = GridCell string int int

record sprite =
  sp_texture :: texture
  sp_x :: int
  sp_y :: int
  sp_group :: nat

datatype batch_event = Created sprite | Deleted sprite

type_synonym coord = "int \<times> int"

text \<open>A sprite pool: the dict \<open>self.sprites\<close>, in insertion order; \<open>None\<close> is a stored miss.\<close>

type_synonym pool = "(coord \<times> sprite option) list"

section \<open>\<open>Tileset\<close> (json\_map.py, lines 271-293)\<close>

record tileset =
  tsd :: tileset_data
  columns :: int
  rows :: int
  image :: string

definition basename :: "string \<Rightarrow> string" where
  "basename p = rev (takeWhile (\<lambda>c. c \<noteq> CHR ''/'') (rev p))"

text \<open>
  The atlas image is taken to have the size the tileset declares, so that
  \<open>get_texture_sequence\<close> slices the same rows and columns and raises exactly when the
  two calls below do.
\<close>

definition Tileset_init :: "tileset_data \<Rightarrow> pyerr + tileset" where
  "Tileset_init d =
     (case calculate_columns (ts_imagewidth d) (ts_tilewidth d) (ts_margin d) (ts_spacing d) of
        Inl e \<Rightarrow> Inl e
      | Inr c \<Rightarrow>
          (case calculate_columns (ts_imageheight d) (ts_tileheight d) (ts_margin d) (ts_spacing d) of
             Inl e \<Rightarrow> Inl e
           | Inr r \<Rightarrow> Inr \<lparr>tsd = d, columns = c, rows = r, image = basename (ts_image d)\<rparr>))"

definition Tileset_getitem :: "tileset \<Rightarrow> int \<times> int \<Rightarrow> texture" where
  "Tileset_getitem ts index = (case index of (r, c) \<Rightarrow> GridCell (image ts) r c)"

section \<open>Layers (json\_map.py, lines 82-268)\<close>

record tilelayer =
  tl_data :: layer_data
  tl_sprites :: "pool option"
  tl_group :: "nat option"

record objectgroup =
  og_data :: layer_data
  og_sprites :: "pool option"
  og_group :: "nat option"
  og_h :: int
  og_objects :: "obj list"
  og_index :: "string \<rightharpoonup> obj list"
  og_index_type :: "string \<rightharpoonup> obj list"
  og_xy_index :: "coord \<rightharpoonup> obj list"

datatype layer = TileLayer tilelayer | ObjectGroup objectgroup

text \<open>
  \<open>BaseLayer.__init__\<close>: a visible layer gets an empty pool and the next ordered group;
  an invisible one gets neither attribute.  The class counter \<open>BaseLayer.groups\<close> is
  passed in and returned.
\<close>

definition BaseLayer_init :: "layer_data \<Rightarrow> nat \<Rightarrow> pool option \<times> nat option \<times> nat" where
  "BaseLayer_init d groups =
     (if ld_visible d then (Some [], Some groups, groups + 1) else (None, None, groups))"

definition TileLayer_init :: "layer_data \<Rightarrow> nat \<Rightarrow> tilelayer \<times> nat" where
  "TileLayer_init d groups =
     (case BaseLayer_init d groups of
        (sp, gr, groups') \<Rightarrow> (\<lparr>tl_data = d, tl_sprites = sp, tl_group = gr\<rparr>, groups'))"

subsection \<open>\<open>ObjectGroup.__init__\<close>\<close>

definition obj_get_name :: "obj \<Rightarrow> string" where
  "obj_get_name ob = (case obj_name ob of None \<Rightarrow> ''?'' | Some n \<Rightarrow> n)"

definition obj_get_type :: "obj \<Rightarrow> string" where
  "obj_get_type ob = (case obj_type ob of None \<Rightarrow> ''?'' | Some n \<Rightarrow> n)"

text \<open>\<open>if k not in d: d[k] = []\<close> and \<open>d[k].append(v)\<close> (the key is present by then).\<close>

definition ensure_list :: "('k \<rightharpoonup> 'v list) \<Rightarrow> 'k \<Rightarrow> ('k \<rightharpoonup> 'v list)" where
  "ensure_list d k = (if d k = None then d(k \<mapsto> []) else d)"

definition append_at :: "('k \<rightharpoonup> 'v list) \<Rightarrow> 'k \<Rightarrow> 'v \<Rightarrow> ('k \<rightharpoonup> 'v list)" where
  "append_at d k v = (case d k of None \<Rightarrow> d | Some l \<Rightarrow> d(k \<mapsto> l @ [v]))"

fun index_objects :: "map_data \<Rightarrow> obj list \<Rightarrow> objectgroup \<Rightarrow> pyerr + objectgroup" where
  "index_objects md [] g = Inr g"
| "index_objects md (ob # rest) g =
     (let objects = og_objects g @ [ob];
          name = obj_get_name ob;
          idx = ensure_list (og_index g) name;
          otype = obj_get_type ob;
          idx_type = ensure_list (og_index_type g) otype
      in
      if md_tilewidth md = 0 then Inl ZeroDivisionError
      else if md_tileheight md = 0 then Inl ZeroDivisionError
      else
        let x = obj_x ob div md_tilewidth md;
            y = obj_y ob div md_tileheight md - 1;
            coordinate = (x, y);
            xy = ensure_list (og_xy_index g) coordinate
        in index_objects md rest
             (g\<lparr>og_objects := objects,
                og_index := append_at idx name ob,
                og_index_type := append_at idx_type otype ob,
                og_xy_index := append_at xy coordinate ob\<rparr>))"

definition ObjectGroup_init :: "layer_data \<Rightarrow> map_data \<Rightarrow> nat \<Rightarrow> pyerr + (objectgroup \<times> nat)" where
  "ObjectGroup_init d md groups =
     (case BaseLayer_init d groups of
        (sp, gr, groups') \<Rightarrow>
          (case index_objects md (ld_objects d)
                  \<lparr>og_data = d, og_sprites = sp, og_group = gr, og_h = 0, og_objects = [],
                   og_index = Map.empty, og_index_type = Map.empty, og_xy_index = Map.empty\<rparr> of
             Inl e \<Rightarrow> Inl e
           | Inr g \<Rightarrow>
               Inr (g\<lparr>og_objects :=
                        sort_key (\<lambda>ob. obj_x ob + obj_y ob * md_width md) (og_objects g)\<rparr>,
                    groups')))"

subsection \<open>\<open>ObjectGroup.__contains__\<close>, \<open>__getitem__\<close>, \<open>get_by_type\<close>\<close>

text \<open>The argument is a tuple (a coordinate) or anything else (a name).\<close>

datatype og_key = ByCoord int int | ByName string

datatype og_item = OneObject obj | Objects "obj list"

definition ObjectGroup_contains :: "objectgroup \<Rightarrow> og_key \<Rightarrow> bool" where
  "ObjectGroup_contains g name =
     (case name of
        ByCoord x y \<Rightarrow> og_xy_index g (x, y) \<noteq> None
      | ByName n \<Rightarrow> og_index g n \<noteq> None)"

definition ObjectGroup_getitem :: "objectgroup \<Rightarrow> og_key \<Rightarrow> pyerr + og_item" where
  "ObjectGroup_getitem g name =
     (case name of
        ByCoord x y \<Rightarrow>
          (case og_xy_index g (x, y) of
             None \<Rightarrow> Inl KeyError
           | Some [] \<Rightarrow> Inl IndexError
           | Some (ob # _) \<Rightarrow> Inr (OneObject ob))
      | ByName n \<Rightarrow>
          (case og_index g n of None \<Rightarrow> Inl KeyError | Some l \<Rightarrow> Inr (Objects l)))"

definition get_by_type :: "objectgroup \<Rightarrow> string \<Rightarrow> pyerr + obj list" where
  "get_by_type g otype =
     (case og_index_type g otype of None \<Rightarrow> Inl KeyError | Some l \<Rightarrow> Inr l)"

section \<open>\<open>Map\<close> (json\_map.py, lines 296-476)\<close>

record map_state =
  m_data :: map_data
  m_tilesets :: "(string \<times> tileset) list"
  m_layers :: "layer list"
  m_tilelayers :: "(string \<times> nat) list"
  m_objectgroups :: "(string \<times> nat) list"
  m_batch :: "batch_event list"
  m_x :: int
  m_y :: int
  m_w :: int
  m_h :: int
  m_fx :: "int option"
  m_fy :: "int option"
  p_width :: int
  p_height :: int
  tileoffset_index :: "int \<rightharpoonup> int \<times> int"
  texture_index :: "int \<rightharpoonup> texture"
  m_groups :: nat

text \<open>
  The dicts \<open>tilelayers\<close> and \<open>objectgroups\<close> hold references to elements of
  \<open>layers\<close>: they are kept as association lists from the name to the position in
  \<open>m_layers\<close>.  \<open>m_groups\<close> is the class counter
  \<open>BaseLayer.groups\<close> after construction.
\<close>

subsection \<open>The tileset loop (lines 313-314)\<close>

fun build_tilesets ::
  "tileset_data list \<Rightarrow> (string \<times> tileset) list \<Rightarrow> pyerr + (string \<times> tileset) list" where
  "build_tilesets [] tilesets = Inr tilesets"
| "build_tilesets (d # rest) tilesets =
     (case Tileset_init d of
        Inl e \<Rightarrow> Inl e
      | Inr ts \<Rightarrow> build_tilesets rest (AList.update (ts_name d) ts tilesets))"

subsection \<open>The layer loop (lines 316-328)\<close>

text \<open>
  The duplicate test is \<open>layer['name'] in (self.tilelayers, self.objectgroups)\<close>:
  membership of the name in a tuple of two dicts, that is, equality of a string with
  one of the two dicts.
\<close>

datatype pyval = PyStr string | PyDict "(string \<times> nat) list"

type_synonym layers_acc = "layer list \<times> (string \<times> nat) list \<times> (string \<times> nat) list \<times> nat"

fun build_layers :: "map_data \<Rightarrow> layer_data list \<Rightarrow> layers_acc \<Rightarrow> pyerr + layers_acc" where
  "build_layers md [] acc = Inr acc"
| "build_layers md (layer # rest) (layers, tilelayers, objectgroups, groups) =
     (if PyStr (ld_name layer) \<in> set [PyDict tilelayers, PyDict objectgroups]
      then Inl ValueError
      else if ld_type layer = ''tilelayer'' then
        (case TileLayer_init layer groups of
           (L, groups') \<Rightarrow>
             build_layers md rest
               (layers @ [TileLayer L], AList.update (ld_name layer) (length layers) tilelayers,
                objectgroups, groups'))
      else if ld_type layer = ''objectgroup'' then
        (case ObjectGroup_init layer md groups of
           Inl e \<Rightarrow> Inl e
         | Inr (G, groups') \<Rightarrow>
             build_layers md rest
               (layers @ [ObjectGroup G], tilelayers,
                AList.update (ld_name layer) (length layers) objectgroups, groups'))
      else Inl ValueError)"

subsection \<open>The gid index (lines 346-359)\<close>

type_synonym gid_index = "(int \<rightharpoonup> texture) \<times> (int \<rightharpoonup> int \<times> int)"

definition index_cell :: "tileset \<Rightarrow> int \<Rightarrow> int \<Rightarrow> gid_index \<Rightarrow> gid_index" where
  "index_cell ts y x idx =
     (case idx of
        (tex, off) \<Rightarrow>
          (tex(x + y * columns ts + ts_firstgid (tsd ts)
                 \<mapsto> Tileset_getitem ts (rows ts - 1 - y, x)),
           (case ts_tileoffset (tsd ts) of
              None \<Rightarrow> off
            | Some p \<Rightarrow> off(x + y * columns ts + ts_firstgid (tsd ts) \<mapsto> p))))"

definition index_tileset :: "tileset \<Rightarrow> gid_index \<Rightarrow> gid_index" where
  "index_tileset ts idx =
     fold (\<lambda>y. fold (\<lambda>x. index_cell ts y x) [0..columns ts - 1]) [0..rows ts - 1] idx"

definition build_index :: "(string \<times> tileset) list \<Rightarrow> gid_index" where
  "build_index tilesets = fold index_tileset (map snd tilesets) (Map.empty, Map.empty)"

subsection \<open>\<open>Map.__init__\<close>\<close>

definition Map_init :: "map_data \<Rightarrow> nat \<Rightarrow> pyerr + map_state" where
  "Map_init data groups =
     (case build_tilesets (md_tilesets data) [] of
        Inl e \<Rightarrow> Inl e
      | Inr tilesets \<Rightarrow>
          (case build_layers data (md_layers data) ([], [], [], groups) of
             Inl e \<Rightarrow> Inl e
           | Inr (layers, tilelayers, objectgroups, groups') \<Rightarrow>
               Inr \<lparr>m_data = data, m_tilesets = tilesets, m_layers = layers,
                    m_tilelayers = tilelayers, m_objectgroups = objectgroups,
                    m_batch = [], m_x = 0, m_y = 0, m_w = 0, m_h = 0,
                    m_fx = None, m_fy = None,
                    p_width = md_width data * md_tilewidth data,
                    p_height = md_height data * md_tileheight data,
                    tileoffset_index = snd (build_index tilesets),
                    texture_index = fst (build_index tilesets),
                    m_groups = groups'\<rparr>))"

definition get_texture :: "map_state \<Rightarrow> int \<Rightarrow> pyerr + texture" where
  "get_texture M gid = (case texture_index M gid of None \<Rightarrow> Inl KeyError | Some t \<Rightarrow> Inr t)"

definition get_tileoffset :: "map_state \<Rightarrow> int \<Rightarrow> int \<times> int" where
  "get_tileoffset M gid = (case tileoffset_index M gid of None \<Rightarrow> (0, 0) | Some p \<Rightarrow> p)"

section \<open>\<open>get_texture_sequence\<close> (json\_map.py, lines 55-79)\<close>




section \<open>\<open>MapRenderer.load\<close>: the tileset scan (maprenderer.py, lines 56-103)\<close>







section \<open>\<open>TileLayer.__contains__\<close> and \<open>__getitem__\<close> (lines 117-129)\<close>

text \<open>An index is a tuple of two integers, or something else (which raises \<open>TypeError\<close>).\<close>

datatype pyindex = PyTuple int int | PyOther

text \<open>
  Subscripting a Python list: positions \<open>0 .. len - 1\<close> from the front, \<open>-1 .. -len\<close>
  from the back, anything else raises \<open>IndexError\<close>.
\<close>

definition py_list_get :: "'a list \<Rightarrow> int \<Rightarrow> pyerr + 'a" where
  "py_list_get xs i =
     (if 0 \<le> i \<and> i < int (length xs) then Inr (xs ! nat i)
      else if i < 0 \<and> - int (length xs) \<le> i then Inr (xs ! nat (int (length xs) + i))
      else Inl IndexError)"

definition TileLayer_contains :: "map_state \<Rightarrow> tilelayer \<Rightarrow> pyindex \<Rightarrow> pyerr + bool" where
  "TileLayer_contains M L index =
     (case index of
        PyOther \<Rightarrow> Inl TypeError
      | PyTuple x y \<Rightarrow> Inr (x + y * md_width (m_data M) \<in> set (ld_data (tl_data L))))"

definition TileLayer_getitem :: "map_state \<Rightarrow> tilelayer \<Rightarrow> pyindex \<Rightarrow> pyerr + int" where
  "TileLayer_getitem M L index =
     (case index of
        PyOther \<Rightarrow> Inl TypeError
      | PyTuple x y \<Rightarrow> py_list_get (ld_data (tl_data L)) (x + y * md_width (m_data M)))"

section \<open>\<open>TileLayer.set_viewport\<close> (lines 131-165)\<close>

text \<open>
  The state of the two loops: the pool (absent on an invisible layer), the set \<open>in_use\<close>
  and the batch.  An exception leaves the state as it was when it was raised, so every
  step returns the state and the exception, if any.  The generator \<open>yrange\<close> does not
  end when its step is not positive: the loops are partial functions, \<open>None\<close> standing
  for a call that does not return.
\<close>

type_synonym vp_loop = "pool option \<times> coord set \<times> batch_event list"

definition tl_visit :: "map_state \<Rightarrow> tilelayer \<Rightarrow> int \<Rightarrow> coord \<Rightarrow> vp_loop \<Rightarrow> vp_loop \<times> pyerr option" where
  "tl_visit M L h coordinate st =
     (case (coordinate, st) of
        ((px, py), (sprites, in_use, batch)) \<Rightarrow>
          (let tw = md_tilewidth (m_data M);
               th = md_tileheight (m_data M);
               in_use = insert coordinate in_use
           in
           case sprites of
             None \<Rightarrow> ((sprites, in_use, batch), Some AttributeError)
           | Some pool \<Rightarrow>
               if coordinate \<in> fst ` set pool then ((sprites, in_use, batch), None)
               else
                 (case (case TileLayer_getitem M L (PyTuple px py) of
                          Inl e \<Rightarrow> Inl e
                        | Inr gid \<Rightarrow> get_texture M gid) of
                    Inl e \<Rightarrow>
                      if e = KeyError \<or> e = IndexError
                      then ((Some (AList.update coordinate None pool), in_use, batch), None)
                      else ((sprites, in_use, batch), Some e)
                  | Inr texture \<Rightarrow>
                      (case tl_group L of
                         None \<Rightarrow> ((sprites, in_use, batch), Some AttributeError)
                       | Some grp \<Rightarrow>
                           (let sprite = \<lparr>sp_texture = texture, sp_x = px * tw,
                                          sp_y = h - (py * th) - th, sp_group = grp\<rparr>
                            in ((Some (AList.update coordinate (Some sprite) pool), in_use,
                                 batch @ [Created sprite]), None))))))"

partial_function (option) tl_cols ::
  "map_state \<Rightarrow> tilelayer \<Rightarrow> int \<Rightarrow> int \<Rightarrow> int \<Rightarrow> int \<Rightarrow> vp_loop \<Rightarrow> (vp_loop \<times> pyerr option) option" where
  "tl_cols M L h py i t st =
     (if i < t then
        (if md_tilewidth (m_data M) = 0 then Some (st, Some ZeroDivisionError)
         else
           (case tl_visit M L h (i div md_tilewidth (m_data M), py) st of
              (st', Some e) \<Rightarrow> Some (st', Some e)
            | (st', None) \<Rightarrow> tl_cols M L h py (i + md_tilewidth (m_data M)) t st'))
      else Some (st, None))"

partial_function (option) tl_rows ::
  "map_state \<Rightarrow> tilelayer \<Rightarrow> int \<Rightarrow> int \<Rightarrow> int \<Rightarrow> int \<Rightarrow> int \<Rightarrow> vp_loop \<Rightarrow> (vp_loop \<times> pyerr option) option" where
  "tl_rows M L x w h j t st =
     (if j < t then
        (if md_tileheight (m_data M) = 0 then Some (st, Some ZeroDivisionError)
         else
           (case tl_cols M L h (j div md_tileheight (m_data M)) x
                   (x + w + md_tilewidth (m_data M)) st of
              None \<Rightarrow> None
            | Some (st', Some e) \<Rightarrow> Some (st', Some e)
            | Some (st', None) \<Rightarrow> tl_rows M L x w h (j + md_tileheight (m_data M)) t st'))
      else Some (st, None))"

text \<open>
  \<open>unused_keys = set(self.sprites) - in_use\<close>, taken in pool order (Python leaves the
  order of a set open).
\<close>

definition unused_keys :: "pool \<Rightarrow> coord set \<Rightarrow> coord list" where
  "unused_keys pool in_use = remdups (filter (\<lambda>k. k \<notin> in_use) (map fst pool))"

fun tl_pop_unused :: "coord list \<Rightarrow> pool \<Rightarrow> batch_event list \<Rightarrow> (pool \<times> batch_event list) \<times> pyerr option" where
  "tl_pop_unused [] pool batch = ((pool, batch), None)"
| "tl_pop_unused (key # keys) pool batch =
     (case map_of pool key of
        None \<Rightarrow> ((pool, batch), Some KeyError)
      | Some None \<Rightarrow> tl_pop_unused keys (AList.delete key pool) batch
      | Some (Some sp) \<Rightarrow> tl_pop_unused keys (AList.delete key pool) (batch @ [Deleted sp]))"

definition TileLayer_set_viewport ::
  "map_state \<Rightarrow> tilelayer \<Rightarrow> int \<Rightarrow> int \<Rightarrow> int \<Rightarrow> int \<Rightarrow> ((tilelayer \<times> batch_event list) \<times> pyerr option) option" where
  "TileLayer_set_viewport M L x y w h =
     (case tl_rows M L x w h y (y + h + md_tileheight (m_data M)) (tl_sprites L, {}, m_batch M) of
        None \<Rightarrow> None
      | Some ((sprites, in_use, batch), Some e) \<Rightarrow> Some ((L\<lparr>tl_sprites := sprites\<rparr>, batch), Some e)
      | Some ((sprites, in_use, batch), None) \<Rightarrow>
          (case sprites of
             None \<Rightarrow> Some ((L, batch), Some AttributeError)
           | Some pool \<Rightarrow>
               (case tl_pop_unused (unused_keys pool in_use) pool batch of
                  ((pool', batch'), e) \<Rightarrow> Some ((L\<lparr>tl_sprites := Some pool'\<rparr>, batch'), e))))"

section \<open>\<open>ObjectGroup.set_viewport\<close> (lines 236-268)\<close>

definition og_visit :: "map_state \<Rightarrow> objectgroup \<Rightarrow> int \<Rightarrow> obj \<Rightarrow> int \<Rightarrow> vp_loop \<Rightarrow> vp_loop \<times> pyerr option" where
  "og_visit M G h ob gid st =
     (case st of
        (sprites, in_use, batch) \<Rightarrow>
          (let coordinate = (obj_x ob, obj_y ob);
               in_use = insert coordinate in_use
           in
           case (case get_texture M gid of
                   Inl e \<Rightarrow> Inl e
                 | Inr texture \<Rightarrow>
                     (let tileoffset = get_tileoffset M gid in
                      case og_group G of
                        None \<Rightarrow> Inl AttributeError
                      | Some grp \<Rightarrow>
                          Inr \<lparr>sp_texture = texture, sp_x = obj_x ob + fst tileoffset,
                               sp_y = h - obj_y ob + snd tileoffset, sp_group = grp\<rparr>)) of
             Inl e \<Rightarrow>
               if e = IndexError \<or> e = KeyError
               then (case sprites of
                       None \<Rightarrow> ((sprites, in_use, batch), Some AttributeError)
                     | Some pool \<Rightarrow>
                         ((Some (AList.update coordinate None pool), in_use, batch), None))
               else ((sprites, in_use, batch), Some e)
           | Inr sprite \<Rightarrow>
               (case sprites of
                  None \<Rightarrow> ((sprites, in_use, batch @ [Created sprite]), Some AttributeError)
                | Some pool \<Rightarrow>
                    ((Some (AList.update coordinate (Some sprite) pool), in_use,
                      batch @ [Created sprite]), None))))"

fun og_scan ::
  "map_state \<Rightarrow> objectgroup \<Rightarrow> int \<Rightarrow> int \<Rightarrow> int \<Rightarrow> int \<Rightarrow> obj list \<Rightarrow> vp_loop \<Rightarrow> vp_loop \<times> pyerr option" where
  "og_scan M G x y w h [] st = (st, None)"
| "og_scan M G x y w h (ob # rest) st =
     (let tw = md_tilewidth (m_data M); th = md_tileheight (m_data M) in
      if x - tw < obj_x ob \<and> obj_x ob < x + w + tw \<and> y - th < obj_y ob \<and> obj_y ob < y + h + th
      then
        (if \<not> obj_visible ob then og_scan M G x y w h rest st
         else
           (case obj_gid ob of
              None \<Rightarrow> og_scan M G x y w h rest st
            | Some gid \<Rightarrow>
                if gid = 0 then og_scan M G x y w h rest st
                else
                  (case og_visit M G h ob gid st of
                     (st', Some e) \<Rightarrow> (st', Some e)
                   | (st', None) \<Rightarrow> og_scan M G x y w h rest st')))
      else og_scan M G x y w h rest st)"

text \<open>The removal pass of the object group calls \<open>o.delete()\<close> on whatever it pops.\<close>

fun og_pop_unused :: "coord list \<Rightarrow> pool \<Rightarrow> batch_event list \<Rightarrow> (pool \<times> batch_event list) \<times> pyerr option" where
  "og_pop_unused [] pool batch = ((pool, batch), None)"
| "og_pop_unused (key # keys) pool batch =
     (case map_of pool key of
        None \<Rightarrow> ((pool, batch), Some KeyError)
      | Some None \<Rightarrow> ((AList.delete key pool, batch), Some AttributeError)
      | Some (Some sp) \<Rightarrow> og_pop_unused keys (AList.delete key pool) (batch @ [Deleted sp]))"

definition ObjectGroup_set_viewport ::
  "map_state \<Rightarrow> objectgroup \<Rightarrow> int \<Rightarrow> int \<Rightarrow> int \<Rightarrow> int \<Rightarrow> (objectgroup \<times> batch_event list) \<times> pyerr option" where
  "ObjectGroup_set_viewport M G x y w h =
     (case og_scan M G x y w h (og_objects G) (og_sprites G, {}, m_batch M) of
        ((sprites, in_use, batch), Some e) \<Rightarrow>
          ((G\<lparr>og_h := h, og_sprites := sprites\<rparr>, batch), Some e)
      | ((sprites, in_use, batch), None) \<Rightarrow>
          (case sprites of
             None \<Rightarrow> ((G\<lparr>og_h := h\<rparr>, batch), Some AttributeError)
           | Some pool \<Rightarrow>
               (case og_pop_unused (unused_keys pool in_use) pool batch of
                  ((pool', batch'), e) \<Rightarrow>
                    ((G\<lparr>og_h := h, og_sprites := Some pool'\<rparr>, batch'), e))))"

section \<open>\<open>Map.set_viewport\<close> (lines 365-390)\<close>

text \<open>
  The loop over \<open>self.layers\<close>, by position: a layer's \<open>set_viewport\<close> changes the layer
  in place and the batch it shares with the map.  The arguments are Python integers, as
  at every call in this repository, so \<open>int(w)\<close> is \<open>w\<close>.
\<close>

fun layers_set_viewport :: "nat list \<Rightarrow> map_state \<Rightarrow> (map_state \<times> pyerr option) option" where
  "layers_set_viewport [] M = Some (M, None)"
| "layers_set_viewport (i # rest) M =
     (case m_layers M ! i of
        TileLayer L \<Rightarrow>
          if ld_visible (tl_data L) then
            (case TileLayer_set_viewport M L (m_x M) (m_y M) (m_w M) (m_h M) of
               None \<Rightarrow> None
             | Some ((L', batch), e) \<Rightarrow>
                 (let M' = M\<lparr>m_layers := (m_layers M)[i := TileLayer L'], m_batch := batch\<rparr> in
                  case e of
                    Some err \<Rightarrow> Some (M', Some err)
                  | None \<Rightarrow> layers_set_viewport rest M'))
          else layers_set_viewport rest M
      | ObjectGroup G \<Rightarrow>
          if ld_visible (og_data G) then
            (case ObjectGroup_set_viewport M G (m_x M) (m_y M) (m_w M) (m_h M) of
               ((G', batch), e) \<Rightarrow>
                 (let M' = M\<lparr>m_layers := (m_layers M)[i := ObjectGroup G'], m_batch := batch\<rparr> in
                  case e of
                    Some err \<Rightarrow> Some (M', Some err)
                  | None \<Rightarrow> layers_set_viewport rest M'))
          else layers_set_viewport rest M)"

definition Map_set_viewport ::
  "map_state \<Rightarrow> int \<Rightarrow> int \<Rightarrow> int \<Rightarrow> int \<Rightarrow> bool \<Rightarrow> (map_state \<times> pyerr option) option" where
  "Map_set_viewport M x y w h force =
     (let vx = max x 0;
          vy = max y 0;
          vx = min vx (p_width M - w);
          vy = min vy (p_height M - h);
          vw = w;
          vh = h
      in
      if \<not> (force \<or> vx \<noteq> m_x M \<or> vy \<noteq> m_y M \<or> vw \<noteq> m_w M \<or> vh \<noteq> m_h M)
      then Some (M, None)
      else layers_set_viewport [0..<length (m_layers M)]
             (M\<lparr>m_x := vx, m_y := vy, m_w := vw, m_h := vh\<rparr>))"

section \<open>Notions of the specification\<close>

text \<open>The tile coordinate an object is indexed at (lines 204-206).\<close>

definition obj_coordinate :: "map_data \<Rightarrow> obj \<Rightarrow> coord" where
  "obj_coordinate md ob = (obj_x ob div md_tilewidth md, obj_y ob div md_tileheight md - 1)"

text \<open>
  Grouping a sequence by a key, on top of an index \<open>d\<close>: each key of the sequence maps
  to what \<open>d\<close> held followed by the elements with that key, in order.
\<close>

definition grouped :: "('a \<Rightarrow> 'k) \<Rightarrow> ('k \<rightharpoonup> 'a list) \<Rightarrow> 'a list \<Rightarrow> ('k \<rightharpoonup> 'a list)" where
  "grouped key d xs k =
     (if filter (\<lambda>x. key x = k) xs = [] then d k
      else Some ((case d k of None \<Rightarrow> [] | Some l \<Rightarrow> l) @ filter (\<lambda>x. key x = k) xs))"





text \<open>
  The values the generator \<open>yrange(f, t, s)\<close> yields when the step is positive, and the
  two loops of \<open>TileLayer.set_viewport\<close> as one pass over a list of coordinates.
\<close>

function yrange_values :: "int \<Rightarrow> int \<Rightarrow> int \<Rightarrow> int list" where
  "yrange_values f t s = (if 0 < s \<and> f < t then f # yrange_values (f + s) t s else [])"
  by pat_completeness auto
termination
  by (relation "measure (\<lambda>(f, t, s). nat (t - f))") auto

declare yrange_values.simps [simp del]

fun tl_visit_all :: "map_state \<Rightarrow> tilelayer \<Rightarrow> int \<Rightarrow> coord list \<Rightarrow> vp_loop \<Rightarrow> vp_loop \<times> pyerr option" where
  "tl_visit_all M L h [] st = (st, None)"
| "tl_visit_all M L h (c # cs) st =
     (case tl_visit M L h c st of
        (st', Some e) \<Rightarrow> (st', Some e)
      | (st', None) \<Rightarrow> tl_visit_all M L h cs st')"

text \<open>The sprites a pool holds at the given keys.\<close>

definition pool_sprites :: "pool \<Rightarrow> coord list \<Rightarrow> sprite list" where
  "pool_sprites pool ks =
     concat (map (\<lambda>k. case map_of pool k of Some (Some sp) \<Rightarrow> [sp] | _ \<Rightarrow> []) ks)"

text \<open>
  The coordinates stepped by \<open>s\<close> over \<open>[f, t)\<close>, and the tile coordinates of the viewport
  rectangle expanded by one tile on the high side.
\<close>

definition stepped :: "int \<Rightarrow> int \<Rightarrow> int \<Rightarrow> int set" where
  "stepped f t s = {i \<in> {f..<t}. s dvd (i - f)}"

definition viewport_coords :: "int \<Rightarrow> int \<Rightarrow> int \<Rightarrow> int \<Rightarrow> int \<Rightarrow> int \<Rightarrow> coord set" where
  "viewport_coords tw th x y w h =
     (\<lambda>(i, j). (i div tw, j div th)) ` (stepped x (x + w + tw) tw \<times> stepped y (y + h + th) th)"

text \<open>
  What a layer's \<open>set_viewport\<close> leaves alone in the map, and the test that makes
  \<open>Map.set_viewport\<close> do anything when \<open>force\<close> is unset.
\<close>

definition same_view :: "map_state \<Rightarrow> map_state \<Rightarrow> bool" where
  "same_view M M' \<longleftrightarrow>
     m_x M' = m_x M \<and> m_y M' = m_y M \<and> m_w M' = m_w M \<and> m_h M' = m_h M
     \<and> p_width M' = p_width M \<and> p_height M' = p_height M \<and> m_data M' = m_data M"

definition viewport_changes :: "map_state \<Rightarrow> int \<Rightarrow> int \<Rightarrow> int \<Rightarrow> int \<Rightarrow> bool" where
  "viewport_changes M x y w h \<longleftrightarrow>
     min (max x 0) (p_width M - w) \<noteq> m_x M \<or> min (max y 0) (p_height M - h) \<noteq> m_y M
     \<or> w \<noteq> m_w M \<or> h \<noteq> m_h M"




section \<open>Example inputs\<close>

definition ex_atlas :: tileset_data where
  "ex_atlas = \<lparr>ts_name = ''tiles'', ts_image = ''gfx/tiles.png'', ts_imagewidth = 35,
               ts_imageheight = 35, ts_tilewidth = 16, ts_tileheight = 16, ts_margin = 1,
               ts_spacing = 1, ts_firstgid = 1, ts_tileoffset = None\<rparr>"



definition ex_objs :: "obj list" where
  "ex_objs =
     [\<lparr>obj_name = Some ''a'', obj_type = None, obj_x = 0, obj_y = 0,
       obj_visible = True, obj_gid = None\<rparr>,
      \<lparr>obj_name = Some ''a'', obj_type = None, obj_x = 32, obj_y = 0,
       obj_visible = True, obj_gid = None\<rparr>]"

definition ex_og_layer :: layer_data where
  "ex_og_layer = \<lparr>ld_name = ''objs'', ld_type = ''objectgroup'', ld_visible = True,
                  ld_data = [], ld_objects = ex_objs\<rparr>"

definition ex_og_map :: map_data where
  "ex_og_map = \<lparr>md_width = 4, md_height = 4, md_tilewidth = 32, md_tileheight = 32,
                md_tilesets = [], md_layers = [ex_og_layer]\<rparr>"

definition ex_ground :: layer_data where
  "ex_ground = \<lparr>ld_name = ''ground'', ld_type = ''tilelayer'', ld_visible = True,
                ld_data = [5, 0, 0, 7], ld_objects = []\<rparr>"

definition ex_dup_map :: map_data where
  "ex_dup_map = \<lparr>md_width = 2, md_height = 2, md_tilewidth = 16, md_tileheight = 16,
                 md_tilesets = [], md_layers = [ex_ground, ex_ground]\<rparr>"

definition ex_tl_map :: map_data where
  "ex_tl_map = \<lparr>md_width = 2, md_height = 2, md_tilewidth = 16, md_tileheight = 16,
                md_tilesets = [], md_layers = [ex_ground]\<rparr>"

definition ex_tiles :: layer_data where
  "ex_tiles = \<lparr>ld_name = ''tiles'', ld_type = ''tilelayer'', ld_visible = True,
               ld_data = replicate 100 1, ld_objects = []\<rparr>"

definition ex_view_map :: map_data where
  "ex_view_map = \<lparr>md_width = 10, md_height = 10, md_tilewidth = 16, md_tileheight = 16,
                  md_tilesets = [ex_atlas], md_layers = [ex_tiles]\<rparr>"

definition ex_sprite :: sprite where
  "ex_sprite = \<lparr>sp_texture = GridCell ''tiles.png'' 1 0, sp_x = 144, sp_y = - 96, sp_group = 0\<rparr>"

definition ex_pooled_layer :: tilelayer where
  "ex_pooled_layer = \<lparr>tl_data = ex_tiles, tl_sprites = Some [((9, 9), Some ex_sprite)],
                      tl_group = Some 0\<rparr>"

definition ex_miss_obj :: obj where
  "ex_miss_obj = \<lparr>obj_name = Some ''chest'', obj_type = None, obj_x = 8, obj_y = 8,
                      obj_visible = True, obj_gid = Some 9\<rparr>"

definition ex_miss_layer :: layer_data where
  "ex_miss_layer = \<lparr>ld_name = ''things'', ld_type = ''objectgroup'', ld_visible = True,
                    ld_data = [], ld_objects = [ex_miss_obj]\<rparr>"

definition ex_miss_map :: map_data where
  "ex_miss_map = \<lparr>md_width = 10, md_height = 10, md_tilewidth = 16, md_tileheight = 16,
                  md_tilesets = [], md_layers = [ex_miss_layer]\<rparr>"



section \<open>Theorems\<close>

text \<open>
  C2. For \<open>image_len \<ge> 2 * margin + tile_len\<close> and \<open>U = image_len - 2 * margin\<close>:
  when \<open>calculate_columns\<close> returns a count, it is the count of the formula
  (\<open>1\<close> when \<open>U = tile_len\<close>) and the exact-division identity
  \<open>count * tile_len + spacing * (count - 1) = U\<close> holds for it; when the identity fails
  for the formula's count, the call raises instead of returning a count.
\<close>

theorem calculate_columns_slicing:
  assumes "2 * margin + tile_len \<le> image_len"
  shows "case calculate_columns image_len tile_len margin spacing of
           Inr c \<Rightarrow> c = slicing_count (image_len - 2 * margin) tile_len spacing
                    \<and> slicing_identity (image_len - 2 * margin) tile_len spacing c
         | Inl e \<Rightarrow> \<not> slicing_identity (image_len - 2 * margin) tile_len spacing
                        (slicing_count (image_len - 2 * margin) tile_len spacing)"
proof -
  have m: "margin * 2 = 2 * margin" by simp
  show ?thesis
    using assms unfolding calculate_columns_def slicing_count_def slicing_identity_def Let_def m
    by (auto split: sum.splits)
qed

theorem calculate_columns_slicing_witness:
  "2 * 1 + 16 \<le> (69::int) \<and> calculate_columns 69 16 1 1 = Inr 4
   \<and> slicing_count (69 - 2 * 1) 16 1 = 4 \<and> slicing_identity (69 - 2 * 1) 16 1 4"
  using calculate_columns_slicing [of 1 16 69 1]
  by (simp add: calculate_columns_def slicing_count_def slicing_identity_def)

subsection \<open>Object indices\<close>

lemma append_ensure:
  "append_at (ensure_list d k) k v = d(k \<mapsto> (case d k of None \<Rightarrow> [] | Some l \<Rightarrow> l) @ [v])"
  by (auto simp: append_at_def ensure_list_def split: option.splits)

lemma grouped_Nil: "grouped key d [] = d"
  by (rule ext) (simp add: grouped_def)

lemma grouped_Cons:
  "grouped key d (x # xs) =
     grouped key (d(key x \<mapsto> (case d (key x) of None \<Rightarrow> [] | Some l \<Rightarrow> l) @ [x])) xs"
  by (rule ext) (auto simp: grouped_def)

lemma index_objects_grouped:
  "index_objects md objs g = Inr g' \<Longrightarrow>
     og_index g' = grouped obj_get_name (og_index g) objs \<and>
     og_index_type g' = grouped obj_get_type (og_index_type g) objs \<and>
     og_xy_index g' = grouped (obj_coordinate md) (og_xy_index g) objs \<and>
     og_objects g' = og_objects g @ objs"
proof (induction objs arbitrary: g)
  case Nil
  then show ?case by (simp add: grouped_Nil)
next
  case (Cons ob rest)
  from Cons.prems have nz: "md_tilewidth md \<noteq> 0" "md_tileheight md \<noteq> 0"
    by (auto simp: Let_def split: if_splits)
  define g1 where "g1 = g\<lparr>og_objects := og_objects g @ [ob],
      og_index := append_at (ensure_list (og_index g) (obj_get_name ob)) (obj_get_name ob) ob,
      og_index_type :=
        append_at (ensure_list (og_index_type g) (obj_get_type ob)) (obj_get_type ob) ob,
      og_xy_index :=
        append_at (ensure_list (og_xy_index g) (obj_coordinate md ob)) (obj_coordinate md ob) ob\<rparr>"
  from Cons.prems nz have "index_objects md rest g1 = Inr g'"
    by (simp add: Let_def g1_def obj_coordinate_def)
  from Cons.IH [OF this] show ?case
    by (simp add: g1_def append_ensure grouped_Cons fun_upd_def)
qed

lemma find_filter: "find P xs = (case filter P xs of [] \<Rightarrow> None | x # _ \<Rightarrow> Some x)"
  by (induction xs) auto

lemma ex_og_init: "\<exists>G. ObjectGroup_init ex_og_layer ex_og_map 0 = Inr (G, 1)"
  by (simp add: ObjectGroup_init_def ex_og_layer_def ex_og_map_def ex_objs_def
        BaseLayer_init_def Let_def)

text \<open>
  C6. The three indices of an object group are built at construction.  Looking up a
  name returns all objects with that name (an object without a name has the name
  \<open>?\<close>), in the order of the layer's object list; looking up a type likewise; looking up
  a tile coordinate returns the first object of the list whose coordinate
  \<open>(x div tilewidth, y div tileheight - 1)\<close> is the one asked for.  A key no object has
  raises \<open>KeyError\<close>.
\<close>

theorem objectgroup_indices:
  assumes "ObjectGroup_init d md groups = Inr (G, groups')"
  shows "ObjectGroup_getitem G (ByName n) =
           (if n \<in> obj_get_name ` set (ld_objects d)
            then Inr (Objects (filter (\<lambda>ob. obj_get_name ob = n) (ld_objects d)))
            else Inl KeyError)
       \<and> get_by_type G t =
           (if t \<in> obj_get_type ` set (ld_objects d)
            then Inr (filter (\<lambda>ob. obj_get_type ob = t) (ld_objects d))
            else Inl KeyError)
       \<and> ObjectGroup_getitem G (ByCoord x y) =
           (case find (\<lambda>ob. obj_coordinate md ob = (x, y)) (ld_objects d) of
              Some ob \<Rightarrow> Inr (OneObject ob)
            | None \<Rightarrow> Inl KeyError)"
proof -
  obtain sp gr g0 where b: "BaseLayer_init d groups = (sp, gr, g0)"
    by (cases "BaseLayer_init d groups") auto
  define G0 where "G0 = \<lparr>og_data = d, og_sprites = sp, og_group = gr, og_h = 0,
      og_objects = [], og_index = Map.empty, og_index_type = Map.empty,
      og_xy_index = Map.empty\<rparr>"
  from assms b obtain g where g: "index_objects md (ld_objects d) G0 = Inr g"
    and G: "G = g\<lparr>og_objects :=
                    sort_key (\<lambda>ob. obj_x ob + obj_y ob * md_width md) (og_objects g)\<rparr>"
    by (auto simp: ObjectGroup_init_def G0_def split: sum.splits)
  from index_objects_grouped [OF g]
  have i: "og_index G = grouped obj_get_name Map.empty (ld_objects d)"
    and t: "og_index_type G = grouped obj_get_type Map.empty (ld_objects d)"
    and c: "og_xy_index G = grouped (obj_coordinate md) Map.empty (ld_objects d)"
    by (simp_all add: G G0_def)
  have f: "\<And>key k xs. (filter (\<lambda>x. key x = k) xs = []) = (k \<notin> key ` set xs)"
    by (auto simp: filter_empty_conv)
  have 1: "ObjectGroup_getitem G (ByName n) =
           (if n \<in> obj_get_name ` set (ld_objects d)
            then Inr (Objects (filter (\<lambda>ob. obj_get_name ob = n) (ld_objects d)))
            else Inl KeyError)"
    by (simp add: ObjectGroup_getitem_def i grouped_def f)
  have 2: "get_by_type G t =
           (if t \<in> obj_get_type ` set (ld_objects d)
            then Inr (filter (\<lambda>ob. obj_get_type ob = t) (ld_objects d))
            else Inl KeyError)"
    by (simp add: get_by_type_def t grouped_def f)
  have 3: "ObjectGroup_getitem G (ByCoord x y) =
           (case find (\<lambda>ob. obj_coordinate md ob = (x, y)) (ld_objects d) of
              Some ob \<Rightarrow> Inr (OneObject ob)
            | None \<Rightarrow> Inl KeyError)"
    by (cases "filter (\<lambda>ob. obj_coordinate md ob = (x, y)) (ld_objects d)")
       (simp_all add: ObjectGroup_getitem_def c grouped_def find_filter)
  from 1 2 3 show ?thesis by blast
qed

theorem objectgroup_indices_witness:
  "\<exists>G. ObjectGroup_init ex_og_layer ex_og_map 0 = Inr (G, 1)
     \<and> ObjectGroup_getitem G (ByName ''a'') = Inr (Objects ex_objs)
     \<and> ObjectGroup_getitem G (ByCoord 1 (- 1)) = Inr (OneObject (ex_objs ! 1))"
proof -
  obtain G where G: "ObjectGroup_init ex_og_layer ex_og_map 0 = Inr (G, 1)"
    using ex_og_init by blast
  have "ObjectGroup_getitem G (ByName ''a'') = Inr (Objects ex_objs)"
    using objectgroup_indices [OF G, of "''a''"]
    by (simp add: ex_og_layer_def ex_objs_def obj_get_name_def)
  moreover have "ObjectGroup_getitem G (ByCoord 1 (- 1)) = Inr (OneObject (ex_objs ! 1))"
    using objectgroup_indices [OF G, of _ _ 1 "- 1"]
    by (simp add: ex_og_layer_def ex_og_map_def ex_objs_def obj_coordinate_def)
  ultimately show ?thesis using G by blast
qed

subsection \<open>Layer names\<close>

lemma duplicate_test_never_holds:
  "PyStr name \<notin> set [PyDict tilelayers, PyDict objectgroups]"
  by simp

text \<open>
  C7. A map description with two layers of the same name is to be refused at
  construction.  The code accepts it: for two tile layers both named \<open>ground\<close>,
  \<open>Map.__init__\<close> returns a map with both layers in \<open>layers\<close> and the name bound to the
  second one in \<open>tilelayers\<close>.
\<close>

theorem duplicate_layer_name_accepted:
  "\<exists>M. Map_init ex_dup_map 0 = Inr M \<and> length (m_layers M) = 2
       \<and> m_tilelayers M = [(''ground'', 1)]"
  by (simp add: Map_init_def ex_dup_map_def ex_ground_def TileLayer_init_def
        BaseLayer_init_def)

subsection \<open>Tile lookup\<close>

text \<open>
  C8. Membership and lookup of a tile layer are to go by the flat index
  \<open>x + y * width\<close>.  In the 2 x 2 layer with data \<open>[5, 0, 0, 7]\<close> the code answers that
  \<open>(1, 0)\<close> (flat index 1, a valid position) is not contained, that \<open>(5, 0)\<close> (flat index
  5, out of range) is contained, and returns the last tile for \<open>(-1, 0)\<close> (flat index
  \<open>-1\<close>) instead of raising.
\<close>

theorem tilelayer_contains_tests_values:
  "\<exists>M L. Map_init ex_tl_map 0 = Inr M \<and> m_layers M = [TileLayer L]
       \<and> TileLayer_contains M L (PyTuple 1 0) = Inr False
       \<and> TileLayer_getitem M L (PyTuple 1 0) = Inr 0
       \<and> TileLayer_contains M L (PyTuple 5 0) = Inr True
       \<and> TileLayer_getitem M L (PyTuple 5 0) = Inl IndexError
       \<and> TileLayer_getitem M L (PyTuple (- 1) 0) = Inr 7"
  by (simp add: Map_init_def ex_tl_map_def ex_ground_def TileLayer_init_def
        BaseLayer_init_def TileLayer_contains_def TileLayer_getitem_def py_list_get_def)

subsection \<open>The gid index\<close>


















subsection \<open>Tile layer viewport\<close>

lemma tl_visit_all_append:
  "tl_visit_all M L h (cs @ ds) st =
     (case tl_visit_all M L h cs st of
        (st', Some e) \<Rightarrow> (st', Some e)
      | (st', None) \<Rightarrow> tl_visit_all M L h ds st')"
  by (induction cs arbitrary: st) (auto split: prod.splits option.splits)

lemma yrange_values_step:
  "0 < s \<Longrightarrow> f < t \<Longrightarrow> yrange_values f t s = f # yrange_values (f + s) t s"
  by (simp add: yrange_values.simps [of f t s])

lemma yrange_values_done: "\<not> f < t \<Longrightarrow> yrange_values f t s = []"
  by (simp add: yrange_values.simps [of f t s])

lemma tl_cols_total:
  assumes "0 < md_tilewidth (m_data M)"
  shows "tl_cols M L h py i t st =
     Some (tl_visit_all M L h
             (map (\<lambda>i. (i div md_tilewidth (m_data M), py)) (yrange_values i t (md_tilewidth (m_data M)))) st)"
  using assms
proof (induction i t "md_tilewidth (m_data M)" arbitrary: st rule: yrange_values.induct)
  case (1 f t)
  show ?case
  proof (cases "f < t")
    case False
    then show ?thesis
      by (subst tl_cols.simps, subst yrange_values.simps) simp
  next
    case True
    show ?thesis
      apply (subst tl_cols.simps)
      apply (subst yrange_values.simps)
      using True "1.prems" "1.hyps"
      apply (auto split: prod.splits option.splits)
      done
  qed
qed

lemma tl_rows_total:
  assumes "0 < md_tilewidth (m_data M)" "0 < md_tileheight (m_data M)"
  shows "tl_rows M L x w h j t st =
     Some (tl_visit_all M L h
             (concat (map (\<lambda>j. map (\<lambda>i. (i div md_tilewidth (m_data M), j div md_tileheight (m_data M)))
                                  (yrange_values x (x + w + md_tilewidth (m_data M)) (md_tilewidth (m_data M))))
                          (yrange_values j t (md_tileheight (m_data M))))) st)"
  using assms
proof (induction j t "md_tileheight (m_data M)" arbitrary: st rule: yrange_values.induct)
  case (1 f t)
  show ?case
  proof (cases "f < t")
    case False
    then show ?thesis
      by (subst tl_rows.simps) (simp add: yrange_values_done)
  next
    case True
    note y = yrange_values_step [OF "1.prems"(2) True]
    show ?thesis
      apply (subst tl_rows.simps)
      using True "1.prems" "1.hyps"
      apply (auto simp: y tl_cols_total tl_visit_all_append split: prod.splits option.splits)
      done
  qed
qed

lemma keys_update: "fst ` set (AList.update k v al) = insert k (fst ` set al)"
  by (simp add: dom_update)

lemma tl_visit_in_use:
  "tl_visit M L h c (sp, iu, b) = ((sp', iu', b'), e) \<Longrightarrow> iu' = insert c iu"
  by (cases c) (auto simp: tl_visit_def Let_def split: option.splits if_splits sum.splits)

lemma tl_visit_ok:
  assumes "tl_visit M L h c (Some pool, iu, b) = ((sp', iu', b'), None)"
  shows "\<exists>pool'. sp' = Some pool' \<and> fst ` set pool' = insert c (fst ` set pool)
           \<and> (\<forall>k \<in> fst ` set pool. map_of pool' k = map_of pool k)
           \<and> (\<exists>cr. b' = b @ cr)"
proof (cases "c \<in> fst ` set pool")
  case True
  with assms show ?thesis
    by (cases c) (auto simp: tl_visit_def Let_def)
next
  case False
  with assms obtain v cr where "sp' = Some (AList.update c v pool)" "b' = b @ cr"
    by (cases c) (auto simp: tl_visit_def Let_def split: option.splits if_splits sum.splits)
  with False show ?thesis
    by (auto simp: keys_update update_conv')
qed

lemma tl_visit_no_error:
  assumes "tl_group L = Some g"
  shows "snd (tl_visit M L h c (Some pool, iu, b)) = None"
  using assms
  by (cases c)
     (auto simp: tl_visit_def Let_def TileLayer_getitem_def py_list_get_def get_texture_def
           split: option.splits if_splits sum.splits)

lemma tl_visit_all_ok:
  "tl_visit_all M L h cs (Some pool, iu, b) = ((sp', iu', b'), None) \<Longrightarrow>
     \<exists>pool'. sp' = Some pool' \<and> iu' = iu \<union> set cs
        \<and> fst ` set pool' = fst ` set pool \<union> set cs
        \<and> (\<forall>k \<in> fst ` set pool. map_of pool' k = map_of pool k)
        \<and> (\<exists>cr. b' = b @ cr)"
proof (induction cs arbitrary: pool iu b)
  case Nil
  then show ?case by auto
next
  case (Cons c cs)
  obtain sp1 iu1 b1 e1 where v: "tl_visit M L h c (Some pool, iu, b) = ((sp1, iu1, b1), e1)"
    by (metis prod_cases3 surj_pair)
  with Cons.prems have e1: "e1 = None"
    and r: "tl_visit_all M L h cs (sp1, iu1, b1) = ((sp', iu', b'), None)"
    by (auto split: option.splits)
  from tl_visit_ok [OF v [unfolded e1]] obtain pool1 cr1 where p1: "sp1 = Some pool1"
    "fst ` set pool1 = insert c (fst ` set pool)"
    "\<forall>k \<in> fst ` set pool. map_of pool1 k = map_of pool k" "b1 = b @ cr1"
    by blast
  from tl_visit_in_use [OF v] have i1: "iu1 = insert c iu" .
  from Cons.IH [OF r [unfolded p1(1)]] obtain pool2 cr2 where p2: "sp' = Some pool2"
    "iu' = iu1 \<union> set cs" "fst ` set pool2 = fst ` set pool1 \<union> set cs"
    "\<forall>k \<in> fst ` set pool1. map_of pool2 k = map_of pool1 k" "b' = b1 @ cr2"
    by blast
  have "\<forall>k \<in> fst ` set pool. map_of pool2 k = map_of pool k"
    using p1(2,3) p2(4) by auto
  with p1 p2 i1 show ?case by auto
qed

lemma tl_visit_all_no_error:
  assumes "tl_group L = Some g"
  shows "snd (tl_visit_all M L h cs (Some pool, iu, b)) = None"
proof (induction cs arbitrary: pool iu b)
  case Nil
  then show ?case by simp
next
  case (Cons c cs)
  obtain sp1 iu1 b1 e1 where v: "tl_visit M L h c (Some pool, iu, b) = ((sp1, iu1, b1), e1)"
    by (metis prod_cases3 surj_pair)
  with tl_visit_no_error [OF assms, of M h c pool iu b] have e1: "e1 = None" by simp
  from tl_visit_ok [OF v [unfolded e1]] obtain pool1 where "sp1 = Some pool1" by blast
  with v e1 Cons.IH [of pool1 iu1 b1] show ?case by simp
qed

lemma tl_pop_unused_result:
  "distinct ks \<Longrightarrow> set ks \<subseteq> fst ` set pool \<Longrightarrow>
     tl_pop_unused ks pool batch =
       ((filter (\<lambda>p. fst p \<notin> set ks) pool, batch @ map Deleted (pool_sprites pool ks)), None)"
proof (induction ks arbitrary: pool batch)
  case Nil
  then show ?case by (simp add: pool_sprites_def)
next
  case (Cons key keys)
  let ?pool1 = "AList.delete key pool"
  have d: "?pool1 = filter (\<lambda>p. fst p \<noteq> key) pool"
    by (auto simp: AList.delete_eq intro: filter_cong)
  have "set (map fst ?pool1) = set (map fst pool) - {key}"
    unfolding delete_keys by simp
  then have "fst ` set ?pool1 = fst ` set pool - {key}"
    by simp
  with Cons.prems have k: "distinct keys" "set keys \<subseteq> fst ` set ?pool1"
    by auto
  from Cons.prems obtain v where v: "map_of pool key = Some v"
    by (cases "map_of pool key") (auto simp: map_of_eq_None_iff)
  have m: "\<And>k. k \<in> set keys \<Longrightarrow> map_of ?pool1 k = map_of pool k"
    using Cons.prems(1) by (auto simp: delete_conv')
  then have s: "pool_sprites ?pool1 keys = pool_sprites pool keys"
    by (simp add: pool_sprites_def cong: map_cong)
  have f: "filter (\<lambda>p. fst p \<notin> set keys) ?pool1 = filter (\<lambda>p. fst p \<notin> set (key # keys)) pool"
    by (auto simp: d intro: filter_cong)
  show ?case
    using v Cons.IH [OF k] s f
    by (cases v) (simp_all add: pool_sprites_def)
qed

lemma stepped_step:
  assumes "0 < s" "f < t"
  shows "stepped f t s = insert f (stepped (f + s) t s)"
proof (rule set_eqI)
  fix i
  show "i \<in> stepped f t s \<longleftrightarrow> i \<in> insert f (stepped (f + s) t s)"
  proof
    assume i: "i \<in> stepped f t s"
    show "i \<in> insert f (stepped (f + s) t s)"
    proof (cases "i = f")
      case True
      then show ?thesis by simp
    next
      case False
      with i have p: "0 < i - f" "s dvd (i - f)" "i < t" by (auto simp: stepped_def)
      then have "s \<le> i - f" by (simp add: zdvd_imp_le)
      moreover from p(2) have "s dvd (i - (f + s))"
        by (metis diff_diff_eq dvd_diff dvd_refl)
      ultimately show ?thesis using p(3) by (simp add: stepped_def)
    qed
  next
    assume "i \<in> insert f (stepped (f + s) t s)"
    then consider "i = f" | "i \<in> stepped (f + s) t s" by blast
    then show "i \<in> stepped f t s"
    proof cases
      case 1
      with assms show ?thesis by (simp add: stepped_def)
    next
      case 2
      then have "s dvd (i - (f + s))" "f + s \<le> i" "i < t" by (auto simp: stepped_def)
      moreover then have "s dvd ((i - (f + s)) + s)" by (metis dvd_add dvd_refl)
      ultimately show ?thesis using assms by (simp add: stepped_def)
    qed
  qed
qed

lemma set_yrange_values: "0 < s \<Longrightarrow> set (yrange_values f t s) = stepped f t s"
proof (induction f t s rule: yrange_values.induct)
  case (1 f t s)
  show ?case
  proof (cases "f < t")
    case True
    with 1 show ?thesis
      by (simp add: yrange_values_step stepped_step)
  next
    case False
    then show ?thesis by (simp add: yrange_values_done stepped_def)
  qed
qed

lemma set_viewport_cells:
  assumes "0 < tw" "0 < th"
  shows "set (concat (map (\<lambda>j. map (\<lambda>i. (i div tw, j div th)) (yrange_values x (x + w + tw) tw))
                        (yrange_values y (y + h + th) th)))
           = viewport_coords tw th x y w h"
  using assms by (auto simp: viewport_coords_def set_yrange_values)

lemma keys_filter: "fst ` set (filter (\<lambda>p. fst p \<notin> K) al) = fst ` set al - K"
  by force

lemma pool_sprites_mem:
  "k \<in> set ks \<Longrightarrow> map_of pool k = Some (Some sp) \<Longrightarrow> sp \<in> set (pool_sprites pool ks)"
  by (force simp: pool_sprites_def)

lemma unused_keys_props:
  "distinct (unused_keys pool iu)" "set (unused_keys pool iu) = fst ` set pool - iu"
  by (auto simp: unused_keys_def)

lemma TileLayer_set_viewport_total:
  assumes "0 < md_tilewidth (m_data M)" "0 < md_tileheight (m_data M)"
  shows "\<exists>r. TileLayer_set_viewport M L x y w h = Some r"
  by (simp add: TileLayer_set_viewport_def tl_rows_total [OF assms]
        split: prod.splits option.splits)

lemma ex_view_init:
  "\<exists>M. Map_init ex_view_map 0 = Inr M \<and> m_data M = ex_view_map
       \<and> p_width M = 160 \<and> p_height M = 160
       \<and> m_x M = 0 \<and> m_y M = 0 \<and> m_w M = 0 \<and> m_h M = 0 \<and> m_batch M = []"
  by (simp add: Map_init_def ex_view_map_def ex_atlas_def ex_tiles_def Tileset_init_def
        calculate_columns_def TileLayer_init_def BaseLayer_init_def)

lemma ex_viewport_coords: "viewport_coords 16 16 0 0 16 16 = {(0, 0), (1, 0), (0, 1), (1, 1)}"
proof -
  have "yrange_values 0 (0 + 16 + 16) 16 = [0, 16]"
    by (simp add: yrange_values_step yrange_values_done)
  with set_viewport_cells [of 16 16 0 16 0 16, symmetric] show ?thesis
    by auto
qed

text \<open>
  C1. For a tile layer with a pool and a group (a visible layer) in a map with positive
  tile size, every call \<open>set_viewport(x, y, w, h)\<close> returns, and afterwards the key set
  of the pool is exactly the set of tile coordinates \<open>(i div tw, j div th)\<close> for \<open>i\<close>
  stepped by \<open>tw\<close> over \<open>[x, x + w + tw)\<close> and \<open>j\<close> stepped by \<open>th\<close> over
  \<open>[y, y + h + th)\<close>: each of them has an entry (a sprite or \<open>None\<close>), every other
  coordinate is gone, and the sprite of every entry that was removed has been deleted.
\<close>

theorem tilelayer_set_viewport_pool:
  assumes "0 < md_tilewidth (m_data M)" "0 < md_tileheight (m_data M)"
    and "tl_sprites L = Some pool" "tl_group L = Some g"
  shows "\<exists>L' pool' batch'.
           TileLayer_set_viewport M L x y w h = Some ((L', batch'), None)
         \<and> tl_sprites L' = Some pool'
         \<and> fst ` set pool' =
             viewport_coords (md_tilewidth (m_data M)) (md_tileheight (m_data M)) x y w h
         \<and> (\<forall>k sp. map_of pool k = Some (Some sp)
                   \<and> k \<notin> viewport_coords (md_tilewidth (m_data M)) (md_tileheight (m_data M)) x y w h
                \<longrightarrow> Deleted sp \<in> set (drop (length (m_batch M)) batch'))"
proof -
  let ?tw = "md_tilewidth (m_data M)" and ?th = "md_tileheight (m_data M)"
  let ?V = "viewport_coords ?tw ?th x y w h"
  define cells where "cells = concat (map (\<lambda>j. map (\<lambda>i. (i div ?tw, j div ?th))
      (yrange_values x (x + w + ?tw) ?tw)) (yrange_values y (y + h + ?th) ?th))"
  have cells: "set cells = ?V"
    unfolding cells_def using assms(1,2) by (rule set_viewport_cells)
  have rows: "tl_rows M L x w h y (y + h + ?th) (Some pool, {}, m_batch M)
                = Some (tl_visit_all M L h cells (Some pool, {}, m_batch M))"
    unfolding cells_def using assms(1,2) by (rule tl_rows_total)
  obtain sp1 iu1 b1 e1 where
    v: "tl_visit_all M L h cells (Some pool, {}, m_batch M) = ((sp1, iu1, b1), e1)"
    by (metis prod_cases3 surj_pair)
  with tl_visit_all_no_error [OF assms(4), of M h cells pool "{}" "m_batch M"]
  have e1: "e1 = None" by simp
  from tl_visit_all_ok [OF v [unfolded e1]] cells obtain pool1 cr where
    p1: "sp1 = Some pool1" "iu1 = ?V" "fst ` set pool1 = fst ` set pool \<union> ?V"
      "\<forall>k \<in> fst ` set pool. map_of pool1 k = map_of pool k" "b1 = m_batch M @ cr"
    by auto
  define ks where "ks = unused_keys pool1 iu1"
  have ks: "distinct ks" "set ks = fst ` set pool1 - iu1"
    by (simp_all add: ks_def unused_keys_props)
  define pool' where "pool' = filter (\<lambda>p. fst p \<notin> set ks) pool1"
  define batch' where "batch' = b1 @ map Deleted (pool_sprites pool1 ks)"
  have pop: "tl_pop_unused ks pool1 b1 = ((pool', batch'), None)"
    unfolding pool'_def batch'_def using ks by (intro tl_pop_unused_result) auto
  have res: "TileLayer_set_viewport M L x y w h
               = Some ((L\<lparr>tl_sprites := Some pool'\<rparr>, batch'), None)"
    by (simp add: TileLayer_set_viewport_def assms(3) rows v e1 p1(1) ks_def [symmetric] pop)
  have keys: "fst ` set pool' = ?V"
    unfolding pool'_def keys_filter using ks(2) p1(2,3) by blast
  have del: "Deleted sp \<in> set (drop (length (m_batch M)) batch')"
    if "map_of pool k = Some (Some sp)" "k \<notin> ?V" for k sp
  proof -
    from that(1) have kp: "k \<in> fst ` set pool"
      by (metis map_of_eq_None_iff option.distinct(1))
    with that p1 ks(2) have "k \<in> set ks" "map_of pool1 k = Some (Some sp)"
      by auto
    then have "sp \<in> set (pool_sprites pool1 ks)"
      by (rule pool_sprites_mem)
    then show ?thesis by (simp add: batch'_def p1(5))
  qed
  from res keys del show ?thesis by auto
qed

theorem tilelayer_set_viewport_pool_witness:
  "\<exists>M. Map_init ex_view_map 0 = Inr M
     \<and> 0 < md_tilewidth (m_data M) \<and> 0 < md_tileheight (m_data M)
     \<and> tl_sprites ex_pooled_layer = Some [((9, 9), Some ex_sprite)]
     \<and> tl_group ex_pooled_layer = Some 0
     \<and> (\<exists>L' pool' batch'.
           TileLayer_set_viewport M ex_pooled_layer 0 0 16 16 = Some ((L', batch'), None)
         \<and> tl_sprites L' = Some pool'
         \<and> fst ` set pool' = {(0, 0), (1, 0), (0, 1), (1, 1)}
         \<and> Deleted ex_sprite \<in> set (drop (length (m_batch M)) batch'))"
proof -
  obtain M where M: "Map_init ex_view_map 0 = Inr M" and d: "m_data M = ex_view_map"
    using ex_view_init by blast
  have h: "0 < md_tilewidth (m_data M)" "0 < md_tileheight (m_data M)"
    "tl_sprites ex_pooled_layer = Some [((9, 9), Some ex_sprite)]"
    "tl_group ex_pooled_layer = Some 0"
    by (simp_all add: d ex_view_map_def ex_pooled_layer_def)
  let ?V = "viewport_coords (md_tilewidth (m_data M)) (md_tileheight (m_data M)) 0 0 16 16"
  have V: "?V = {(0, 0), (1, 0), (0, 1), (1, 1)}"
    by (simp add: d ex_view_map_def ex_viewport_coords)
  from tilelayer_set_viewport_pool [OF h, of 0 0 16 16]
  obtain L' pool' batch' where
    r: "TileLayer_set_viewport M ex_pooled_layer 0 0 16 16 = Some ((L', batch'), None)"
      "tl_sprites L' = Some pool'"
    and k: "fst ` set pool' = ?V"
    and del: "\<forall>k sp. map_of [((9 :: int, 9 :: int), Some ex_sprite)] k = Some (Some sp) \<and> k \<notin> ?V
                \<longrightarrow> Deleted sp \<in> set (drop (length (m_batch M)) batch')"
    by blast
  from del [rule_format, of "(9, 9)" ex_sprite]
  have "Deleted ex_sprite \<in> set (drop (length (m_batch M)) batch')"
    by (simp add: V)
  moreover from k have "fst ` set pool' = {(0, 0), (1, 0), (0, 1), (1, 1)}"
    by (simp only: V)
  ultimately show ?thesis using M h r by blast
qed

subsection \<open>Map viewport\<close>

lemma layers_set_viewport_keeps:
  "layers_set_viewport is M = Some (M', e) \<Longrightarrow> same_view M M'"
proof (induction "is" arbitrary: M)
  case Nil
  then show ?case by (simp add: same_view_def)
next
  case (Cons i rest)
  have step: "same_view M M'"
    if "layers_set_viewport rest M1 = Some (M', e)" "same_view M M1" for M1
    using Cons.IH [OF that(1)] that(2) by (simp add: same_view_def)
  from Cons.prems show ?case
    by (auto simp: Let_def same_view_def split: layer.splits if_splits option.splits prod.splits
             dest!: Cons.IH)
qed

lemma layers_set_viewport_total:
  assumes "0 < md_tilewidth (m_data M)" "0 < md_tileheight (m_data M)"
  shows "\<exists>r. layers_set_viewport is M = Some r"
  using assms
proof (induction "is" arbitrary: M)
  case Nil
  then show ?case by simp
next
  case (Cons i rest)
  show ?case
  proof (cases "m_layers M ! i")
    case (TileLayer L)
    obtain L' b e where r: "TileLayer_set_viewport M L (m_x M) (m_y M) (m_w M) (m_h M) = Some ((L', b), e)"
      using TileLayer_set_viewport_total [OF Cons.prems] by (metis surj_pair)
    show ?thesis
      using TileLayer r Cons.IH [of "M\<lparr>m_layers := (m_layers M)[i := TileLayer L'], m_batch := b\<rparr>"]
        Cons.IH [of M] Cons.prems
      by (auto simp: Let_def split: option.splits)
  next
    case (ObjectGroup G)
    obtain G' b e where r: "ObjectGroup_set_viewport M G (m_x M) (m_y M) (m_w M) (m_h M) = ((G', b), e)"
      by (metis surj_pair)
    show ?thesis
      using ObjectGroup r Cons.IH [of "M\<lparr>m_layers := (m_layers M)[i := ObjectGroup G'], m_batch := b\<rparr>"]
        Cons.IH [of M] Cons.prems
      by (auto simp: Let_def split: option.splits)
  qed
qed

lemma Map_set_viewport_total:
  assumes "0 < md_tilewidth (m_data M)" "0 < md_tileheight (m_data M)"
  shows "\<exists>M' e. Map_set_viewport M x y w h force = Some (M', e)"
proof -
  let ?M1 = "M\<lparr>m_x := min (max x 0) (p_width M - w), m_y := min (max y 0) (p_height M - h),
                m_w := w, m_h := h\<rparr>"
  from layers_set_viewport_total [of ?M1 "[0..<length (m_layers M)]"] assms
  obtain r where "layers_set_viewport [0..<length (m_layers M)] ?M1 = Some r" by auto
  then show ?thesis
    by (cases r) (auto simp: Map_set_viewport_def Let_def)
qed

lemma Map_set_viewport_unfold:
  "Map_set_viewport M x y w h force =
     (if force \<or> viewport_changes M x y w h
      then layers_set_viewport [0..<length (m_layers M)]
             (M\<lparr>m_x := min (max x 0) (p_width M - w), m_y := min (max y 0) (p_height M - h),
                m_w := w, m_h := h\<rparr>)
      else Some (M, None))"
proof -
  have n: "\<And>c (a :: (map_state \<times> pyerr option) option) b.
      (if \<not> c then a else b) = (if c then b else a)"
    by simp
  show ?thesis
    unfolding Map_set_viewport_def Let_def viewport_changes_def n ..
qed

lemma Map_set_viewport_stored:
  assumes "Map_set_viewport M x y w h force = Some (M', e)"
  shows "m_x M' = min (max x 0) (p_width M - w) \<and> m_y M' = min (max y 0) (p_height M - h)
       \<and> m_w M' = w \<and> m_h M' = h \<and> p_width M' = p_width M \<and> p_height M' = p_height M
       \<and> m_data M' = m_data M"
proof (cases "force \<or> viewport_changes M x y w h")
  case False
  with assms have "M' = M" by (simp add: Map_set_viewport_unfold)
  with False show ?thesis by (auto simp: viewport_changes_def)
next
  case True
  with assms have "layers_set_viewport [0..<length (m_layers M)]
      (M\<lparr>m_x := min (max x 0) (p_width M - w), m_y := min (max y 0) (p_height M - h),
         m_w := w, m_h := h\<rparr>) = Some (M', e)"
    by (simp only: Map_set_viewport_unfold if_True)
  from layers_set_viewport_keeps [OF this] show ?thesis
    by (simp add: same_view_def)
qed

text \<open>
  C4. Whatever a call of \<open>Map.set_viewport\<close> returned, the same call again with \<open>force\<close>
  unset returns at once: the map, with its layers, pools and batch, is unchanged, so no
  sprite is created or deleted.  In general a call with \<open>force\<close> unset and no clamped or
  rounded value different from the stored viewport changes nothing and reaches no layer.
\<close>

theorem map_set_viewport_debounce:
  "(Map_set_viewport M x y w h force = Some (M', e) \<longrightarrow>
      Map_set_viewport M' x y w h False = Some (M', None))
   \<and> (\<not> force \<and> \<not> viewport_changes M x y w h \<longrightarrow>
      Map_set_viewport M x y w h force = Some (M, None))"
proof (rule conjI; rule impI)
  assume "Map_set_viewport M x y w h force = Some (M', e)"
  from Map_set_viewport_stored [OF this]
  have "\<not> viewport_changes M' x y w h" by (simp add: viewport_changes_def)
  then show "Map_set_viewport M' x y w h False = Some (M', None)"
    by (simp add: Map_set_viewport_unfold)
next
  assume "\<not> force \<and> \<not> viewport_changes M x y w h"
  then show "Map_set_viewport M x y w h force = Some (M, None)"
    by (simp add: Map_set_viewport_unfold)
qed

theorem map_set_viewport_debounce_witness:
  "\<exists>M M' e. Map_init ex_view_map 0 = Inr M
     \<and> Map_set_viewport M 0 0 64 64 False = Some (M', e)
     \<and> Map_set_viewport M' 0 0 64 64 False = Some (M', None)
     \<and> \<not> viewport_changes M 0 0 0 0
     \<and> Map_set_viewport M 0 0 0 0 False = Some (M, None)"
proof -
  obtain M where M: "Map_init ex_view_map 0 = Inr M" and d: "m_data M = ex_view_map"
    and v: "p_width M = 160" "p_height M = 160" "m_x M = 0" "m_y M = 0" "m_w M = 0" "m_h M = 0"
    using ex_view_init by blast
  obtain M' e where f: "Map_set_viewport M 0 0 64 64 False = Some (M', e)"
    using Map_set_viewport_total [of M 0 0 64 64 False] by (auto simp: d ex_view_map_def)
  have n: "\<not> viewport_changes M 0 0 0 0"
    by (simp add: viewport_changes_def v)
  from map_set_viewport_debounce [of M 0 0 64 64 False M' e] f
  have "Map_set_viewport M' 0 0 64 64 False = Some (M', None)" by blast
  moreover from map_set_viewport_debounce [of M 0 0 0 0 False] n
  have "Map_set_viewport M 0 0 0 0 False = Some (M, None)" by blast
  ultimately show ?thesis using M f n by blast
qed




text \<open>
  C10. When the viewport is wider than the world (\<open>p_width < w\<close>) the stored origin is
  the negative value \<open>p_width - w\<close>, whatever \<open>x\<close> was asked for; likewise for the
  height.
\<close>

theorem map_set_viewport_wider_than_world:
  assumes "Map_set_viewport M x y w h force = Some (M', e)"
  shows "(p_width M < w \<longrightarrow> m_x M' = p_width M - w \<and> m_x M' < 0)
       \<and> (p_height M < h \<longrightarrow> m_y M' = p_height M - h \<and> m_y M' < 0)"
  using Map_set_viewport_stored [OF assms] by auto

theorem map_set_viewport_wider_than_world_witness:
  "\<exists>M M' e. Map_init ex_view_map 0 = Inr M
     \<and> Map_set_viewport M 50 50 200 200 False = Some (M', e)
     \<and> p_width M < 200 \<and> p_height M < 200
     \<and> m_x M' = - 40 \<and> m_y M' = - 40"
proof -
  obtain M where M: "Map_init ex_view_map 0 = Inr M" and d: "m_data M = ex_view_map"
    and v: "p_width M = 160" "p_height M = 160"
    using ex_view_init by blast
  obtain M' e where f: "Map_set_viewport M 50 50 200 200 False = Some (M', e)"
    using Map_set_viewport_total [of M 50 50 200 200 False] by (auto simp: d ex_view_map_def)
  from map_set_viewport_wider_than_world [OF f]
  have "m_x M' = - 40 \<and> m_y M' = - 40" by (simp add: v)
  with M f v show ?thesis by auto
qed

subsection \<open>Object group viewport\<close>

lemma ex_miss_init:
  "\<exists>M G. Map_init ex_miss_map 0 = Inr M \<and> m_layers M = [ObjectGroup G]
      \<and> m_data M = ex_miss_map \<and> texture_index M = Map.empty \<and> m_batch M = []
      \<and> p_width M = 160 \<and> p_height M = 160
      \<and> m_x M = 0 \<and> m_y M = 0 \<and> m_w M = 0 \<and> m_h M = 0
      \<and> og_data G = ex_miss_layer \<and> og_sprites G = Some [] \<and> og_group G = Some 0
      \<and> og_objects G = [ex_miss_obj]"
  by (simp add: Map_init_def ex_miss_map_def ex_miss_layer_def ex_miss_obj_def ObjectGroup_init_def
        BaseLayer_init_def build_index_def Let_def)

text \<open>
  C9. The pool of an object group is never to hold \<open>None\<close>.  For a visible object with
  gid 9 in a map without tilesets, \<open>set_viewport(0, 0, 64, 64)\<close> stores \<open>None\<close> at the
  object's coordinate; moving the viewport to \<open>(96, 96)\<close> then evicts the entry and the
  removal pass raises \<open>AttributeError\<close> on it.
\<close>

theorem objectgroup_pool_stores_none:
  "\<exists>M G M1 G1 M2.
      Map_init ex_miss_map 0 = Inr M \<and> m_layers M = [ObjectGroup G]
    \<and> Map_set_viewport M 0 0 64 64 False = Some (M1, None)
    \<and> m_layers M1 = [ObjectGroup G1] \<and> og_sprites G1 = Some [((8, 8), None)]
    \<and> Map_set_viewport M1 96 96 64 64 False = Some (M2, Some AttributeError)"
proof -
  obtain M G where M: "Map_init ex_miss_map 0 = Inr M" "m_layers M = [ObjectGroup G]"
    and f: "m_data M = ex_miss_map" "texture_index M = Map.empty" "m_batch M = []"
      "p_width M = 160" "p_height M = 160" "m_x M = 0" "m_y M = 0" "m_w M = 0" "m_h M = 0"
    and g: "og_data G = ex_miss_layer" "og_sprites G = Some []" "og_group G = Some 0"
      "og_objects G = [ex_miss_obj]"
    using ex_miss_init by blast
  define G1 where "G1 = G\<lparr>og_h := 64, og_sprites := Some [((8, 8), None)]\<rparr>"
  define M1 where "M1 = M\<lparr>m_x := 0, m_y := 0, m_w := 64, m_h := 64,
      m_layers := [ObjectGroup G1], m_batch := []\<rparr>"
  have og1: "ObjectGroup_set_viewport M' G 0 0 64 64 = ((G1, []), None)"
    if "m_data M' = ex_miss_map" "texture_index M' = Map.empty" "m_batch M' = []" for M'
    by (simp add: ObjectGroup_set_viewport_def that g ex_miss_obj_def ex_miss_map_def
          og_visit_def get_texture_def unused_keys_def G1_def Let_def)
  have c1: "Map_set_viewport M 0 0 64 64 False = Some (M1, None)"
    by (simp add: Map_set_viewport_unfold viewport_changes_def f M(2) g ex_miss_layer_def og1
          M1_def)
  have og2: "ObjectGroup_set_viewport M' G1 96 96 64 64
               = ((G1\<lparr>og_sprites := Some []\<rparr>, []), Some AttributeError)"
    if "m_data M' = ex_miss_map" "texture_index M' = Map.empty" "m_batch M' = []" for M'
    by (simp add: ObjectGroup_set_viewport_def that g ex_miss_obj_def ex_miss_map_def
          unused_keys_def G1_def Let_def)
  have "\<exists>M2. Map_set_viewport M1 96 96 64 64 False = Some (M2, Some AttributeError)"
    by (simp add: Map_set_viewport_unfold viewport_changes_def M1_def f G1_def g
          ex_miss_layer_def og2 [unfolded G1_def])
  with M c1 show ?thesis
    by (auto simp: M1_def G1_def)
qed

theorem objectgroup_pool_stores_none_witness:
  "\<exists>M M1 M2.
      Map_init ex_miss_map 0 = Inr M
    \<and> Map_set_viewport M 0 0 64 64 False = Some (M1, None)
    \<and> (\<exists>G1. m_layers M1 = [ObjectGroup G1] \<and> map_of (the (og_sprites G1)) (8, 8) = Some None)
    \<and> Map_set_viewport M1 96 96 64 64 False = Some (M2, Some AttributeError)"
proof -
  from objectgroup_pool_stores_none obtain M G M1 G1 M2 where
    "Map_init ex_miss_map 0 = Inr M"
    "Map_set_viewport M 0 0 64 64 False = Some (M1, None)"
    "m_layers M1 = [ObjectGroup G1]" "og_sprites G1 = Some [((8, 8), None)]"
    "Map_set_viewport M1 96 96 64 64 False = Some (M2, Some AttributeError)"
    by blast
  then show ?thesis by auto
qed

end
